theory Spec2Isabelle
  imports Main
begin

section \<open>Values exchanged with the messaging platform and the language model\<close>

text \<open>
  The program is \<^verbatim>\<open>kritika_botren.py\<close>: two asynchronous handlers (\<^verbatim>\<open>start\<close>,
  \<^verbatim>\<open>generate_response\<close>) over a module-level dictionary \<^verbatim>\<open>conversations\<close>, a
  Telegram client (\<^verbatim>\<open>context.bot\<close>) and a Gemini chat client (\<^verbatim>\<open>model\<close>).

  A Python \<^verbatim>\<open>str\<close> is modelled by its UTF-8 bytes, as a \<^typ>\<open>string\<close>: emptiness, equality
  and concatenation, the only string operations of the source, agree with Python's on that
  encoding. A chat id is a Python integer. A chat session is a reference to a
  \<^verbatim>\<open>ChatSession\<close> object of the Gemini client; the object itself lives in a heap.
\<close>

type_synonym chat_id = int
type_synonym session = nat
type_synonym history = "string list"

text \<open>Exceptions derived from \<^verbatim>\<open>Exception\<close>, the ones \<^verbatim>\<open>except Exception\<close> catches.\<close>

datatype error = ValueError string | KeyError | AttributeError | ClientError string

text \<open>
  What reading an attribute \<^verbatim>\<open>x.a\<close> of a client object does: the attribute is missing
  (the read raises \<^verbatim>\<open>AttributeError\<close>), the read raises another exception (a property
  of the Gemini client may: \<^verbatim>\<open>response.text\<close> raises \<^verbatim>\<open>ValueError\<close> when the response
  holds no part), or it returns a value. Reading the same attribute again does the same.
\<close>

datatype 'a attr = Missing | Raises error | Value 'a

datatype user = User (first_name: string)

datatype message = Message (message_text: "string option")

text \<open>
  What the handlers read of an update: \<^verbatim>\<open>update.effective_chat.id\<close> (both handlers are
  registered for messages, which always belong to a chat), \<^verbatim>\<open>update.effective_user\<close> and
  \<^verbatim>\<open>update.message\<close>, each possibly \<^verbatim>\<open>None\<close>.
\<close>

record update =
  effective_chat_id :: chat_id
  effective_user :: "user option"
  message :: "message option"

text \<open>
  A response of the language model, as far as the handler looks at it: the attributes
  \<^verbatim>\<open>response.text\<close> and \<^verbatim>\<open>response.parts\<close>, and \<^verbatim>\<open>part.text\<close> of each part. A text
  attribute may hold \<^verbatim>\<open>None\<close>; \<^verbatim>\<open>response.parts\<close> holds a list, empty when it holds
  \<^verbatim>\<open>None\<close>.
\<close>

datatype part = Part (part_text: "string option attr")

datatype response = Response (response_text: "string option attr") (parts: "part list attr")

datatype level = INFO | WARNING | ERROR | CRITICAL

text \<open>One constructor for each logging call of the source, with the interpolated values.\<close>

datatype log_message =
    LoadedApiKeys
  | FailedToLoadApiKeys error
  | UnexpectedSetupError error
  | StartedNewChatSession chat_id
  | NonTextOrEmptyMessage chat_id
  | ReceivedMessage chat_id string
  | InitializedNewChatSession chat_id
  | SendingToGemini string
  | RawGeminiResponse response
  | SendingReply string
  | NoTextInGeminiResponse response
  | ErrorWithGeminiApi chat_id error
  | StartingBot

text \<open>Calls into the two clients, as the handlers issue them.\<close>

datatype call =
    SendChatAction chat_id string
  | SendMessage chat_id string
  | ChatSendMessage session string

section \<open>The collaborators and the state\<close>

text \<open>
  The behaviour of the two clients is not in the source; it is a parameter. Each entry
  answers one call, given the number of client calls made before it (so that the same call may
  fail once and succeed later): \<open>None\<close> from a send is a normal return, \<open>Some e\<close> is
  the exception \<open>e\<close> raised. \<^verbatim>\<open>ChatSession.send_message\<close> returns a response or raises,
  and leaves the session's history as the client decides.
\<close>

record env =
  send_chat_action_raises :: "nat \<Rightarrow> chat_id \<Rightarrow> string \<Rightarrow> error option"
  send_message_raises :: "nat \<Rightarrow> chat_id \<Rightarrow> string \<Rightarrow> error option"
  chat_send_message :: "nat \<Rightarrow> history \<Rightarrow> string \<Rightarrow> (error + response) \<times> history"

text \<open>
  The state: the dictionary \<^verbatim>\<open>conversations\<close>, the \<^verbatim>\<open>ChatSession\<close> objects created
  so far (\<open>heap\<close>, with \<open>next_session\<close> the next unused reference), every client
  call made so far with whether it returned normally (\<open>trace\<close>), and the log.
\<close>

record world =
  conversations :: "chat_id \<rightharpoonup> session"
  heap :: "session \<Rightarrow> history"
  next_session :: session
  trace :: "(call \<times> bool) list"
  logs :: "(level \<times> log_message) list"

definition initial_world :: world where
  "initial_world =
     \<lparr>conversations = Map.empty, heap = (\<lambda>_. []), next_session = 0, trace = [], logs = []\<rparr>"

definition logger :: "level \<Rightarrow> log_message \<Rightarrow> world \<Rightarrow> world" where
  "logger lv m w = w\<lparr>logs := logs w @ [(lv, m)]\<rparr>"

text \<open>
  \<^verbatim>\<open>model.start_chat(history=h)\<close>: a new object, never one that exists already. The call
  builds the object locally and is taken to return always.
\<close>

definition start_chat :: "history \<Rightarrow> world \<Rightarrow> session \<times> world" where
  "start_chat h w =
     (next_session w,
      w\<lparr>heap := (heap w)(next_session w := h), next_session := Suc (next_session w)\<rparr>)"

definition bot_send_chat_action ::
  "env \<Rightarrow> chat_id \<Rightarrow> string \<Rightarrow> world \<Rightarrow> (error + unit) \<times> world" where
  "bot_send_chat_action env c a w =
     (case send_chat_action_raises env (length (trace w)) c a of
        None \<Rightarrow> (Inr (), w\<lparr>trace := trace w @ [(SendChatAction c a, True)]\<rparr>)
      | Some e \<Rightarrow> (Inl e, w\<lparr>trace := trace w @ [(SendChatAction c a, False)]\<rparr>))"

definition bot_send_message ::
  "env \<Rightarrow> chat_id \<Rightarrow> string \<Rightarrow> world \<Rightarrow> (error + unit) \<times> world" where
  "bot_send_message env c t w =
     (case send_message_raises env (length (trace w)) c t of
        None \<Rightarrow> (Inr (), w\<lparr>trace := trace w @ [(SendMessage c t, True)]\<rparr>)
      | Some e \<Rightarrow> (Inl e, w\<lparr>trace := trace w @ [(SendMessage c t, False)]\<rparr>))"

definition session_send_message ::
  "env \<Rightarrow> session \<Rightarrow> string \<Rightarrow> world \<Rightarrow> (error + response) \<times> world" where
  "session_send_message env s p w =
     (case chat_send_message env (length (trace w)) (heap w s) p of
        (Inr r, h) \<Rightarrow>
          (Inr r, w\<lparr>heap := (heap w)(s := h), trace := trace w @ [(ChatSendMessage s p, True)]\<rparr>)
      | (Inl e, h) \<Rightarrow>
          (Inl e, w\<lparr>heap := (heap w)(s := h), trace := trace w @ [(ChatSendMessage s p, False)]\<rparr>))"

text \<open>What the trace says was sent: every \<^verbatim>\<open>send_message\<close> call, and those that returned.\<close>

fun attempted :: "(call \<times> bool) list \<Rightarrow> (chat_id \<times> string) list" where
  "attempted [] = []"
| "attempted ((SendMessage c t, ok) # cs) = (c, t) # attempted cs"
| "attempted (_ # cs) = attempted cs"

fun delivered :: "(call \<times> bool) list \<Rightarrow> (chat_id \<times> string) list" where
  "delivered [] = []"
| "delivered ((SendMessage c t, True) # cs) = (c, t) # delivered cs"
| "delivered (_ # cs) = delivered cs"

fun prompts :: "(call \<times> bool) list \<Rightarrow> (session \<times> string) list" where
  "prompts [] = []"
| "prompts ((ChatSendMessage s p, ok) # cs) = (s, p) # prompts cs"
| "prompts (_ # cs) = prompts cs"

section \<open>Fixed texts\<close>

text \<open>The placeholder first name, \<^verbatim>\<open>dost\<close> in Devanagari (lines 83 and 100).\<close>

definition default_first_name :: string where
  "default_first_name =
     [CHR 0xE0, CHR 0xA4, CHR 0xA6, CHR 0xE0, CHR 0xA5, CHR 0x8B, CHR 0xE0, CHR 0xA4, CHR 0xB8,
      CHR 0xE0, CHR 0xA5, CHR 0x8D, CHR 0xE0, CHR 0xA4, CHR 0xA4]"

text \<open>The welcome message of lines 88 to 94.\<close>

definition welcome_text :: "string \<Rightarrow> string" where
  "welcome_text user_first_name =
     ''Hi '' @ user_first_name @
     ''! '' @
     [CHR 0xF0, CHR 0x9F, CHR 0x91, CHR 0x8B, CHR 0x0A] @
     ''Main Kritika hoon '' @
     [CHR 0xE2, CHR 0x80, CHR 0x93] @
     '' aapki English Teacher. '' @
     [CHR 0xF0, CHR 0x9F, CHR 0x92, CHR 0xA1, CHR 0x0A] @
     ''Main aapko 90 dino mein basic se advanced English sikhane wali hoon, step-by-step.'' @
     [CHR 0x0A] @
     ''Har din aapko grammar aur translation ka ek chhota task milega.'' @
     [CHR 0x0A] @
     ''Shuruaat karein? '' @
     [CHR 0xE2, CHR 0x9C, CHR 0xA8]"

text \<open>The prompt of line 118: two Hindi labels, the first name and the message.\<close>

definition build_prompt :: "string \<Rightarrow> string \<Rightarrow> string" where
  "build_prompt user_first_name user_message =
     [CHR 0xE0, CHR 0xA4, CHR 0x89, CHR 0xE0, CHR 0xA4, CHR 0xAA, CHR 0xE0, CHR 0xA4, CHR 0xAF,
      CHR 0xE0, CHR 0xA5, CHR 0x8B, CHR 0xE0, CHR 0xA4, CHR 0x97, CHR 0xE0, CHR 0xA4, CHR 0x95,
      CHR 0xE0, CHR 0xA4, CHR 0xB0, CHR 0xE0, CHR 0xA5, CHR 0x8D, CHR 0xE0, CHR 0xA4, CHR 0xA4,
      CHR 0xE0, CHR 0xA4, CHR 0xBE, CHR 0x20, CHR 0xE0, CHR 0xA4, CHR 0x95, CHR 0xE0, CHR 0xA4,
      CHR 0xBE, CHR 0x20, CHR 0xE0, CHR 0xA4, CHR 0xA8, CHR 0xE0, CHR 0xA4, CHR 0xBE, CHR 0xE0,
      CHR 0xA4, CHR 0xAE, CHR 0x3A, CHR 0x20]
     @ user_first_name @
     [CHR 0x0A, CHR 0xE0, CHR 0xA4, CHR 0x89, CHR 0xE0, CHR 0xA4, CHR 0xAA, CHR 0xE0, CHR 0xA4,
      CHR 0xAF, CHR 0xE0, CHR 0xA5, CHR 0x8B, CHR 0xE0, CHR 0xA4, CHR 0x97, CHR 0xE0, CHR 0xA4,
      CHR 0x95, CHR 0xE0, CHR 0xA4, CHR 0xB0, CHR 0xE0, CHR 0xA5, CHR 0x8D, CHR 0xE0, CHR 0xA4,
      CHR 0xA4, CHR 0xE0, CHR 0xA4, CHR 0xBE, CHR 0x20, CHR 0xE0, CHR 0xA4, CHR 0x95, CHR 0xE0,
      CHR 0xA4, CHR 0xBE, CHR 0x20, CHR 0xE0, CHR 0xA4, CHR 0xB8, CHR 0xE0, CHR 0xA4, CHR 0x82,
      CHR 0xE0, CHR 0xA4, CHR 0xA6, CHR 0xE0, CHR 0xA5, CHR 0x87, CHR 0xE0, CHR 0xA4, CHR 0xB6,
      CHR 0x3A, CHR 0x20]
     @ user_message"

text \<open>Line 141, sent when the response holds no text.\<close>

definition no_text_fallback :: string where
  "no_text_fallback =
     [CHR 0xE0, CHR 0xA4, CHR 0xAE, CHR 0xE0, CHR 0xA4, CHR 0xBE, CHR 0xE0, CHR 0xA4, CHR 0xAB,
      CHR 0xE0, CHR 0xA4, CHR 0xBC, CHR 0x20, CHR 0xE0, CHR 0xA4, CHR 0x95, CHR 0xE0, CHR 0xA4,
      CHR 0xB0, CHR 0xE0, CHR 0xA5, CHR 0x87, CHR 0xE0, CHR 0xA4, CHR 0x82, CHR 0x2C, CHR 0x20,
      CHR 0xE0, CHR 0xA4, CHR 0x95, CHR 0xE0, CHR 0xA5, CHR 0x81, CHR 0xE0, CHR 0xA4, CHR 0x9B,
      CHR 0x20, CHR 0xE0, CHR 0xA4, CHR 0x97, CHR 0xE0, CHR 0xA4, CHR 0xA1, CHR 0xE0, CHR 0xA4,
      CHR 0xBC, CHR 0xE0, CHR 0xA4, CHR 0xAC, CHR 0xE0, CHR 0xA4, CHR 0xA1, CHR 0xE0, CHR 0xA4,
      CHR 0xBC, CHR 0x20, CHR 0xE0, CHR 0xA4, CHR 0xB9, CHR 0xE0, CHR 0xA5, CHR 0x8B, CHR 0x20,
      CHR 0xE0, CHR 0xA4, CHR 0x97, CHR 0xE0, CHR 0xA4, CHR 0x88, CHR 0xE0, CHR 0xA5, CHR 0xA4,
      CHR 0x20, CHR 0xE0, CHR 0xA4, CHR 0xAE, CHR 0xE0, CHR 0xA5, CHR 0x88, CHR 0xE0, CHR 0xA4,
      CHR 0x82, CHR 0x20, CHR 0xE0, CHR 0xA4, CHR 0x85, CHR 0xE0, CHR 0xA4, CHR 0xAD, CHR 0xE0,
      CHR 0xA5, CHR 0x80, CHR 0x20, CHR 0xE0, CHR 0xA4, CHR 0x9C, CHR 0xE0, CHR 0xA4, CHR 0xB5,
      CHR 0xE0, CHR 0xA4, CHR 0xBE, CHR 0xE0, CHR 0xA4, CHR 0xAC, CHR 0x20, CHR 0xE0, CHR 0xA4,
      CHR 0xA8, CHR 0xE0, CHR 0xA4, CHR 0xB9, CHR 0xE0, CHR 0xA5, CHR 0x80, CHR 0xE0, CHR 0xA4,
      CHR 0x82, CHR 0x20, CHR 0xE0, CHR 0xA4, CHR 0xA6, CHR 0xE0, CHR 0xA5, CHR 0x87, CHR 0x20,
      CHR 0xE0, CHR 0xA4, CHR 0xAA, CHR 0xE0, CHR 0xA4, CHR 0xBE, CHR 0x20, CHR 0xE0, CHR 0xA4,
      CHR 0xB0, CHR 0xE0, CHR 0xA4, CHR 0xB9, CHR 0xE0, CHR 0xA5, CHR 0x80, CHR 0x20, CHR 0xE0,
      CHR 0xA4, CHR 0xB9, CHR 0xE0, CHR 0xA5, CHR 0x82, CHR 0xE0, CHR 0xA4, CHR 0x81, CHR 0xE0,
      CHR 0xA5, CHR 0xA4]"

text \<open>Line 147, sent by the exception handler.\<close>

definition error_fallback :: string where
  "error_fallback =
     [CHR 0xE0, CHR 0xA4, CHR 0x95, CHR 0xE0, CHR 0xA5, CHR 0x8D, CHR 0xE0, CHR 0xA4, CHR 0xB7,
      CHR 0xE0, CHR 0xA4, CHR 0xAE, CHR 0xE0, CHR 0xA4, CHR 0xBE, CHR 0x20, CHR 0xE0, CHR 0xA4,
      CHR 0x95, CHR 0xE0, CHR 0xA4, CHR 0xB0, CHR 0xE0, CHR 0xA5, CHR 0x87, CHR 0xE0, CHR 0xA4,
      CHR 0x82, CHR 0x2C, CHR 0x20, CHR 0xE0, CHR 0xA4, CHR 0xAE, CHR 0xE0, CHR 0xA5, CHR 0x81,
      CHR 0xE0, CHR 0xA4, CHR 0x9D, CHR 0xE0, CHR 0xA5, CHR 0x87, CHR 0x20, CHR 0xE0, CHR 0xA4,
      CHR 0x9C, CHR 0xE0, CHR 0xA4, CHR 0xB5, CHR 0xE0, CHR 0xA4, CHR 0xBE, CHR 0xE0, CHR 0xA4,
      CHR 0xAC, CHR 0x20, CHR 0xE0, CHR 0xA4, CHR 0xA6, CHR 0xE0, CHR 0xA5, CHR 0x87, CHR 0xE0,
      CHR 0xA4, CHR 0xA8, CHR 0xE0, CHR 0xA5, CHR 0x87, CHR 0x20, CHR 0xE0, CHR 0xA4, CHR 0xAE,
      CHR 0xE0, CHR 0xA5, CHR 0x87, CHR 0xE0, CHR 0xA4, CHR 0x82, CHR 0x20, CHR 0xE0, CHR 0xA4,
      CHR 0xAA, CHR 0xE0, CHR 0xA4, CHR 0xB0, CHR 0xE0, CHR 0xA5, CHR 0x87, CHR 0xE0, CHR 0xA4,
      CHR 0xB6, CHR 0xE0, CHR 0xA4, CHR 0xBE, CHR 0xE0, CHR 0xA4, CHR 0xA8, CHR 0xE0, CHR 0xA5,
      CHR 0x80, CHR 0x20, CHR 0xE0, CHR 0xA4, CHR 0xB9, CHR 0xE0, CHR 0xA5, CHR 0x8B, CHR 0x20,
      CHR 0xE0, CHR 0xA4, CHR 0xB0, CHR 0xE0, CHR 0xA4, CHR 0xB9, CHR 0xE0, CHR 0xA5, CHR 0x80,
      CHR 0x20, CHR 0xE0, CHR 0xA4, CHR 0xB9, CHR 0xE0, CHR 0xA5, CHR 0x88, CHR 0xE0, CHR 0xA5,
      CHR 0xA4, CHR 0x20, CHR 0xE0, CHR 0xA4, CHR 0x95, CHR 0xE0, CHR 0xA5, CHR 0x83, CHR 0xE0,
      CHR 0xA4, CHR 0xAA, CHR 0xE0, CHR 0xA4, CHR 0xAF, CHR 0xE0, CHR 0xA4, CHR 0xBE, CHR 0x20,
      CHR 0xE0, CHR 0xA4, CHR 0xAC, CHR 0xE0, CHR 0xA4, CHR 0xBE, CHR 0xE0, CHR 0xA4, CHR 0xA6,
      CHR 0x20, CHR 0xE0, CHR 0xA4, CHR 0xAE, CHR 0xE0, CHR 0xA5, CHR 0x87, CHR 0xE0, CHR 0xA4,
      CHR 0x82, CHR 0x20, CHR 0xE0, CHR 0xA4, CHR 0x95, CHR 0xE0, CHR 0xA5, CHR 0x8B, CHR 0xE0,
      CHR 0xA4, CHR 0xB6, CHR 0xE0, CHR 0xA4, CHR 0xBF, CHR 0xE0, CHR 0xA4, CHR 0xB6, CHR 0x20,
      CHR 0xE0, CHR 0xA4, CHR 0x95, CHR 0xE0, CHR 0xA4, CHR 0xB0, CHR 0xE0, CHR 0xA5, CHR 0x87,
      CHR 0xE0, CHR 0xA4, CHR 0x82, CHR 0xE0, CHR 0xA5, CHR 0xA4]"

section \<open>The handlers\<close>

text \<open>Python's truth value of an optional \<^verbatim>\<open>str\<close>: \<^verbatim>\<open>None\<close> and \<^verbatim>\<open>""\<close> are false.\<close>

fun truthy :: "string option \<Rightarrow> bool" where
  "truthy None = False"
| "truthy (Some s) = (s \<noteq> [])"

definition first_name_of :: "update \<Rightarrow> string" where
  "first_name_of u =
     (case effective_user u of Some usr \<Rightarrow> first_name usr | None \<Rightarrow> default_first_name)"

text \<open>Line 84, the registry's reset: a new session with an empty history, stored under the id.\<close>

definition reset :: "chat_id \<Rightarrow> world \<Rightarrow> session \<times> world" where
  "reset c w =
     (case start_chat [] w of
        (s, w1) \<Rightarrow> (s, w1\<lparr>conversations := (conversations w1)(c \<mapsto> s)\<rparr>))"

text \<open>Lines 81 to 95. The send is not guarded: what it raises leaves the handler.\<close>

definition start :: "env \<Rightarrow> update \<Rightarrow> world \<Rightarrow> (error + unit) \<times> world" where
  "start env u w =
     (let chat_id = effective_chat_id u;
          user_first_name = first_name_of u;
          w1 = snd (reset chat_id w);
          w2 = logger INFO (StartedNewChatSession chat_id) w1
      in bot_send_message env chat_id (welcome_text user_first_name) w2)"

text \<open>
  Lines 108 to 112, the registry's lookup with lazy creation. \<^verbatim>\<open>conversations[chat_id]\<close>
  raises \<^verbatim>\<open>KeyError\<close> on a missing key.
\<close>

definition get_or_create :: "chat_id \<Rightarrow> world \<Rightarrow> (error + session) \<times> world" where
  "get_or_create c w =
     (let w1 = (if conversations w c = None
                then logger INFO (InitializedNewChatSession c) (snd (reset c w))
                else w)
      in case conversations w1 c of
           None \<Rightarrow> (Inl KeyError, w1)
         | Some chat_session \<Rightarrow> (Inr chat_session, w1))"

text \<open>\<^verbatim>\<open>x.a\<close>, and \<^verbatim>\<open>hasattr(x, "a")\<close>, which turns only a missing attribute into \<^verbatim>\<open>False\<close>.\<close>

fun read :: "'a attr \<Rightarrow> error + 'a" where
  "read Missing = Inl AttributeError"
| "read (Raises e) = Inl e"
| "read (Value v) = Inr v"

fun hasattr :: "'a attr \<Rightarrow> error + bool" where
  "hasattr Missing = Inr False"
| "hasattr (Raises e) = Inl e"
| "hasattr (Value v) = Inr True"

text \<open>The test \<^verbatim>\<open>hasattr(x, "text") and x.text\<close> of lines 126 and 130.\<close>

definition has_text :: "string option attr \<Rightarrow> error + bool" where
  "has_text a =
     (case hasattr a of
        Inl e \<Rightarrow> Inl e
      | Inr False \<Rightarrow> Inr False
      | Inr True \<Rightarrow> (case read a of Inl e \<Rightarrow> Inl e | Inr v \<Rightarrow> Inr (truthy v)))"

text \<open>\<^verbatim>\<open>bot_reply = x.text\<close> of lines 127 and 131, reached only when the text is a non-empty string.\<close>

definition take_text :: "string option attr \<Rightarrow> error + string" where
  "take_text a =
     (case read a of
        Inl e \<Rightarrow> Inl e
      | Inr v \<Rightarrow> (case v of Some s \<Rightarrow> Inr s | None \<Rightarrow> Inr []))"

text \<open>Lines 129 to 132: the first part with a non-empty text, or the initial \<^verbatim>\<open>""\<close>.\<close>

fun first_part_text :: "part list \<Rightarrow> error + string" where
  "first_part_text [] = Inr []"
| "first_part_text (p # ps) =
     (case has_text (part_text p) of
        Inl e \<Rightarrow> Inl e
      | Inr True \<Rightarrow> take_text (part_text p)
      | Inr False \<Rightarrow> first_part_text ps)"

text \<open>Lines 125 to 132; \<open>Inl e\<close> when a read of the response raises \<open>e\<close>.\<close>

definition extract_reply :: "response \<Rightarrow> error + string" where
  "extract_reply r =
     (case has_text (response_text r) of
        Inl e \<Rightarrow> Inl e
      | Inr True \<Rightarrow> take_text (response_text r)
      | Inr False \<Rightarrow>
          (case read (parts r) of
             Inl e \<Rightarrow> Inl e
           | Inr ps \<Rightarrow> if ps \<noteq> [] then first_part_text ps else Inr []))"

text \<open>Lines 134 to 142: the reply, or the fixed text when there is none.\<close>

definition send_reply ::
  "env \<Rightarrow> chat_id \<Rightarrow> response \<Rightarrow> string \<Rightarrow> world \<Rightarrow> (error + unit) \<times> world" where
  "send_reply env c r bot_reply w =
     (if bot_reply \<noteq> []
      then bot_send_message env c bot_reply (logger INFO (SendingReply bot_reply) w)
      else bot_send_message env c no_text_fallback (logger WARNING (NoTextInGeminiResponse r) w))"

text \<open>The body of the \<^verbatim>\<open>try\<close>, lines 115 to 142; \<open>Inl e\<close> is \<open>e\<close> raised inside it.\<close>

definition try_body ::
  "env \<Rightarrow> chat_id \<Rightarrow> string \<Rightarrow> string \<Rightarrow> session \<Rightarrow> world \<Rightarrow> (error + unit) \<times> world" where
  "try_body env c user_first_name user_message chat_session w =
     (case bot_send_chat_action env c ''typing'' w of
        (Inl e, w1) \<Rightarrow> (Inl e, w1)
      | (Inr _, w1) \<Rightarrow>
          (let prompt = build_prompt user_first_name user_message;
               w2 = logger INFO (SendingToGemini prompt) w1
           in case session_send_message env chat_session prompt w2 of
                (Inl e, w3) \<Rightarrow> (Inl e, w3)
              | (Inr r, w3) \<Rightarrow>
                  (let w4 = logger INFO (RawGeminiResponse r) w3
                   in case extract_reply r of
                        Inl e \<Rightarrow> (Inl e, w4)
                      | Inr bot_reply \<Rightarrow> send_reply env c r bot_reply w4)))"

text \<open>Lines 143 to 148: log, then send the fixed text; that send is not guarded either.\<close>

definition except_handler :: "env \<Rightarrow> chat_id \<Rightarrow> error \<Rightarrow> world \<Rightarrow> (error + unit) \<times> world" where
  "except_handler env c e w =
     bot_send_message env c error_fallback (logger ERROR (ErrorWithGeminiApi c e) w)"

text \<open>Lines 97 to 148.\<close>

definition generate_response :: "env \<Rightarrow> update \<Rightarrow> world \<Rightarrow> (error + unit) \<times> world" where
  "generate_response env u w =
     (let chat_id = effective_chat_id u;
          user_message = (case message u of Some m \<Rightarrow> message_text m | None \<Rightarrow> None);
          user_first_name = first_name_of u
      in case user_message of
           None \<Rightarrow> (Inr (), logger INFO (NonTextOrEmptyMessage chat_id) w)
         | Some txt \<Rightarrow>
             if txt = [] then (Inr (), logger INFO (NonTextOrEmptyMessage chat_id) w)
             else
               (case get_or_create chat_id (logger INFO (ReceivedMessage chat_id txt) w) of
                  (Inl e, w1) \<Rightarrow> (Inl e, w1)
                | (Inr chat_session, w1) \<Rightarrow>
                    (case try_body env chat_id user_first_name txt chat_session w1 of
                       (Inr _, w2) \<Rightarrow> (Inr (), w2)
                     | (Inl e, w2) \<Rightarrow> except_handler env chat_id e w2)))"

section \<open>Start-up and the event loop\<close>

text \<open>
  Lines 16 to 35, run when the module is loaded. \<open>environ\<close> is \<^verbatim>\<open>os.environ\<close>,
  \<open>configure\<close> answers \<^verbatim>\<open>genai.configure\<close> (\<open>Some e\<close>: it raised \<open>e\<close>).
  \<open>Inl n\<close> is \<^verbatim>\<open>sys.exit(n)\<close>, \<open>Inr\<close> carries the two keys on.
\<close>

definition api_key_setup ::
  "(string \<rightharpoonup> string) \<Rightarrow> (string \<Rightarrow> error option) \<Rightarrow>
   (level \<times> log_message) list \<times> (nat + string \<times> string)" where
  "api_key_setup environ configure =
     (let GOOGLE_API_KEY = environ ''GOOGLE_API_KEY'';
          TELEGRAM_BOT_TOKEN = environ ''TELEGRAM_BOT_TOKEN''
      in if \<not> truthy GOOGLE_API_KEY
         then ([(CRITICAL, FailedToLoadApiKeys
                   (ValueError ''GOOGLE_API_KEY not found in environment variables.''))], Inl 1)
         else if \<not> truthy TELEGRAM_BOT_TOKEN
         then ([(CRITICAL, FailedToLoadApiKeys
                   (ValueError ''TELEGRAM_BOT_TOKEN not found in environment variables.''))], Inl 1)
         else (case configure (the GOOGLE_API_KEY) of
                 None \<Rightarrow>
                   ([(INFO, LoadedApiKeys)], Inr (the GOOGLE_API_KEY, the TELEGRAM_BOT_TOKEN))
               | Some (ValueError m) \<Rightarrow>
                   ([(CRITICAL, FailedToLoadApiKeys (ValueError m))], Inl 1)
               | Some e \<Rightarrow> ([(CRITICAL, UnexpectedSetupError e)], Inl 1)))"

text \<open>
  Lines 151 to 153: the framework routes a \<^verbatim>\<open>/start\<close> command to \<^verbatim>\<open>start\<close> and any other
  text message to \<^verbatim>\<open>generate_response\<close>. The routing itself belongs to the framework; an
  inbound event arrives here already tagged with its kind.
\<close>

datatype event = StartCommand update | TextMessage update

fun dispatch :: "env \<Rightarrow> event \<Rightarrow> world \<Rightarrow> (error + unit) \<times> world" where
  "dispatch env (StartCommand u) w = start env u w"
| "dispatch env (TextMessage u) w = generate_response env u w"

text \<open>
  \<^verbatim>\<open>application.run_polling\<close>, as far as the handlers are concerned: the events are handled
  one after the other, and an exception that leaves a handler stays with the framework.
\<close>

fun run_polling :: "env \<Rightarrow> event list \<Rightarrow> world \<Rightarrow> world" where
  "run_polling env [] w = w"
| "run_polling env (ev # evs) w = run_polling env evs (snd (dispatch env ev w))"

text \<open>
  The whole script: key setup, then (lines 78 and 156 to 164) the empty dictionary and the
  event loop, until the events end. \<^verbatim>\<open>sys.exit\<close> at load time ends the process at once.
\<close>

datatype process_end = SysExit nat "(level \<times> log_message) list" | Stopped world

definition bot_process ::
  "(string \<rightharpoonup> string) \<Rightarrow> (string \<Rightarrow> error option) \<Rightarrow> env \<Rightarrow> event list \<Rightarrow> process_end" where
  "bot_process environ configure env events =
     (case api_key_setup environ configure of
        (lg, Inl status) \<Rightarrow> SysExit status lg
      | (lg, Inr keys) \<Rightarrow>
          Stopped (run_polling env events (logger INFO StartingBot (initial_world\<lparr>logs := lg\<rparr>))))"

section \<open>Notions used to state the properties\<close>

text \<open>The text of a message event, as line 99 reads it.\<close>

definition user_message_of :: "update \<Rightarrow> string option" where
  "user_message_of u = (case message u of Some m \<Rightarrow> message_text m | None \<Rightarrow> None)"



text \<open>The client calls made between two states.\<close>

definition new_calls :: "world \<Rightarrow> world \<Rightarrow> (call \<times> bool) list" where
  "new_calls w w' = drop (length (trace w)) (trace w')"

text \<open>
  The sessions created so far, and the states in which the dictionary holds only such
  sessions: the initial state is one and both handlers keep it so.
\<close>

definition allocated :: "world \<Rightarrow> session \<Rightarrow> bool" where
  "allocated w s = (s < next_session w)"

definition registry_ok :: "world \<Rightarrow> bool" where
  "registry_ok w = (\<forall>c s. conversations w c = Some s \<longrightarrow> allocated w s)"

text \<open>Whether the dictionary holds a session, under any id.\<close>

definition held :: "world \<Rightarrow> session \<Rightarrow> bool" where
  "held w s = (\<exists>c. conversations w c = Some s)"

text \<open>
  The reply as the specification words it: the direct text when there is one, otherwise the
  first non-empty text among the parts taken in order, otherwise nothing. An attribute
  exposes a text when reading it returns a string.
\<close>

fun exposed :: "string option attr \<Rightarrow> string" where
  "exposed (Value (Some s)) = s"
| "exposed _ = []"

definition parts_of :: "response \<Rightarrow> part list" where
  "parts_of r = (case parts r of Value ps \<Rightarrow> ps | _ \<Rightarrow> [])"

definition part_texts :: "response \<Rightarrow> string list" where
  "part_texts r = filter (\<lambda>s. s \<noteq> []) (map (\<lambda>p. exposed (part_text p)) (parts_of r))"

definition spec_reply :: "response \<Rightarrow> string" where
  "spec_reply r =
     (if exposed (response_text r) \<noteq> [] then exposed (response_text r)
      else (case part_texts r of [] \<Rightarrow> [] | s # _ \<Rightarrow> s))"

text \<open>
  The exception that looking for the reply runs into, if any: the direct text is read first,
  then, unless it is a non-empty string, the list of parts, then the text of each part up to
  the first that is a non-empty string.
\<close>

fun raising :: "'a attr \<Rightarrow> error option" where
  "raising (Raises e) = Some e"
| "raising _ = None"

definition read_error :: "response \<Rightarrow> error option" where
  "read_error r =
     (case raising (response_text r) of
        Some e \<Rightarrow> Some e
      | None \<Rightarrow>
          if exposed (response_text r) \<noteq> [] then None
          else (case parts r of
                  Missing \<Rightarrow> Some AttributeError
                | Raises e \<Rightarrow> Some e
                | Value ps \<Rightarrow>
                    (case find (\<lambda>p. raising (part_text p) \<noteq> None \<or> exposed (part_text p) \<noteq> []) ps of
                       Some p \<Rightarrow> raising (part_text p)
                     | None \<Rightarrow> None)))"

text \<open>The text that answers a response: the reply, or the fixed text when it is empty.\<close>

definition answer_text :: "response \<Rightarrow> string" where
  "answer_text r = (if spec_reply r \<noteq> [] then spec_reply r else no_text_fallback)"

text \<open>
  The session a message event for \<open>c\<close> talks to, and the history the language model
  sees for it: the stored session, or a new one with an empty history.
\<close>

definition session_for :: "chat_id \<Rightarrow> world \<Rightarrow> session" where
  "session_for c w = (case conversations w c of Some s \<Rightarrow> s | None \<Rightarrow> next_session w)"

definition history_for :: "chat_id \<Rightarrow> world \<Rightarrow> history" where
  "history_for c w = (case conversations w c of Some s \<Rightarrow> heap w s | None \<Rightarrow> [])"

text \<open>The answer of the language model to a message event handled in state \<open>w\<close>.\<close>

definition model_answer :: "env \<Rightarrow> update \<Rightarrow> string \<Rightarrow> world \<Rightarrow> (error + response) \<times> history" where
  "model_answer env u txt w =
     chat_send_message env (Suc (length (trace w)))
       (history_for (effective_chat_id u) w) (build_prompt (first_name_of u) txt)"

text \<open>
  The outcome of the \<^verbatim>\<open>try\<close> block for a message event with text \<open>m\<close>, handled
  in state \<open>w\<close>: \<open>Inl e\<close> when one of its steps raised \<open>e\<close>.
\<close>

definition try_outcome :: "env \<Rightarrow> update \<Rightarrow> string \<Rightarrow> world \<Rightarrow> (error + unit) \<times> world" where
  "try_outcome env u m w =
     try_body env (effective_chat_id u) (first_name_of u) m
       (session_for (effective_chat_id u) w)
       (snd (get_or_create (effective_chat_id u)
               (logger INFO (ReceivedMessage (effective_chat_id u) m) w)))"

text \<open>
  The exception that the first failing step of the \<^verbatim>\<open>try\<close> block raises, if any, for a
  message event with text \<open>m\<close> handled in state \<open>w\<close>, as the two clients and the
  response decide it: the indicator call, the call of the language model, the reads that
  look for the reply, the send of the answer.
\<close>

definition step_error :: "env \<Rightarrow> update \<Rightarrow> string \<Rightarrow> world \<Rightarrow> error option" where
  "step_error env u m w =
     (case send_chat_action_raises env (length (trace w)) (effective_chat_id u) ''typing'' of
        Some e \<Rightarrow> Some e
      | None \<Rightarrow>
          (case fst (model_answer env u m w) of
             Inl e \<Rightarrow> Some e
           | Inr r \<Rightarrow>
               (case read_error r of
                  Some e \<Rightarrow> Some e
                | None \<Rightarrow>
                    send_message_raises env (Suc (Suc (length (trace w)))) (effective_chat_id u)
                      (answer_text r))))"



text \<open>The \<^verbatim>\<open>send_message\<close> calls of a trace, each with whether it returned.\<close>

fun sends :: "(call \<times> bool) list \<Rightarrow> ((chat_id \<times> string) \<times> bool) list" where
  "sends [] = []"
| "sends ((SendMessage c s, ok) # cs) = ((c, s), ok) # sends cs"
| "sends (_ # cs) = sends cs"

section \<open>Example inputs\<close>

definition asha_start :: update where
  "asha_start =
     \<lparr>effective_chat_id = 42, effective_user = Some (User ''Asha''),
      message = Some (Message (Some ''/start''))\<rparr>"

definition how_are_you :: update where
  "how_are_you =
     \<lparr>effective_chat_id = 42, effective_user = Some (User ''Asha''),
      message = Some (Message (Some ''How are you?''))\<rparr>"

definition photo_only :: update where
  "photo_only =
     \<lparr>effective_chat_id = 42, effective_user = Some (User ''Asha''),
      message = Some (Message None)\<rparr>"

definition hello_seven :: update where
  "hello_seven =
     \<lparr>effective_chat_id = 7, effective_user = None,
      message = Some (Message (Some ''hello''))\<rparr>"



text \<open>Both clients work; the model answers every prompt with the direct text below.\<close>

definition env_ok :: env where
  "env_ok =
     \<lparr>send_chat_action_raises = (\<lambda>n c a. None),
      send_message_raises = (\<lambda>n c t. None),
      chat_send_message = (\<lambda>n h p. (Inr (Response (Value (Some ''I am well'')) (Value [])), h @ [p, ''I am well'']))\<rparr>"

text \<open>The model answers, but the messaging platform refuses every call.\<close>

definition env_platform_down :: env where
  "env_platform_down =
     \<lparr>send_chat_action_raises = (\<lambda>n c a. Some (ClientError ''network'')),
      send_message_raises = (\<lambda>n c t. Some (ClientError ''network'')),
      chat_send_message = (\<lambda>n h p. (Inr (Response (Value (Some ''I am well'')) (Value [])), h @ [p, ''I am well'']))\<rparr>"

text \<open>Only the activity indicator fails.\<close>

definition env_no_indicator :: env where
  "env_no_indicator =
     \<lparr>send_chat_action_raises = (\<lambda>n c a. Some (ClientError ''timed out'')),
      send_message_raises = (\<lambda>n c t. None),
      chat_send_message = (\<lambda>n h p. (Inr (Response (Value (Some ''I am well'')) (Value [])), h @ [p, ''I am well'']))\<rparr>"

text \<open>The indicator works and the model answers, but no message can be sent.\<close>

definition env_no_send :: env where
  "env_no_send =
     \<lparr>send_chat_action_raises = (\<lambda>n c a. None),
      send_message_raises = (\<lambda>n c t. Some (ClientError ''network'')),
      chat_send_message = (\<lambda>n h p. (Inr (Response (Value (Some ''I am well'')) (Value [])), h @ [p, ''I am well'']))\<rparr>"


text \<open>The messaging platform works, the language model raises.\<close>

definition env_model_down :: env where
  "env_model_down =
     \<lparr>send_chat_action_raises = (\<lambda>n c a. None),
      send_message_raises = (\<lambda>n c t. None),
      chat_send_message = (\<lambda>n h p. (Inl (ClientError ''network''), h))\<rparr>"

section \<open>The client calls and the registry, in closed form\<close>

lemma attempted_append: "attempted (xs @ ys) = attempted xs @ attempted ys"
  by (induction xs rule: attempted.induct) simp_all

lemma delivered_append: "delivered (xs @ ys) = delivered xs @ delivered ys"
  by (induction xs rule: delivered.induct) simp_all

lemma prompts_append: "prompts (xs @ ys) = prompts xs @ prompts ys"
  by (induction xs rule: prompts.induct) simp_all

lemma new_calls_append: "trace w' = trace w @ xs \<Longrightarrow> new_calls w w' = xs"
  by (simp add: new_calls_def)

text \<open>Each client call in closed form.\<close>

lemma bot_send_message_eq:
  "bot_send_message env c t w =
     (case send_message_raises env (length (trace w)) c t of None \<Rightarrow> Inr () | Some e \<Rightarrow> Inl e,
      w\<lparr>trace := trace w @ [(SendMessage c t, send_message_raises env (length (trace w)) c t = None)]\<rparr>)"
  by (simp add: bot_send_message_def split: option.split)

lemma bot_send_chat_action_eq:
  "bot_send_chat_action env c a w =
     (case send_chat_action_raises env (length (trace w)) c a of None \<Rightarrow> Inr () | Some e \<Rightarrow> Inl e,
      w\<lparr>trace := trace w @ [(SendChatAction c a, send_chat_action_raises env (length (trace w)) c a = None)]\<rparr>)"
  by (simp add: bot_send_chat_action_def split: option.split)

lemma session_send_message_eq:
  "session_send_message env s p w =
     (fst (chat_send_message env (length (trace w)) (heap w s) p),
      w\<lparr>heap := (heap w)(s := snd (chat_send_message env (length (trace w)) (heap w s) p)),
        trace := trace w @ [(ChatSendMessage s p, \<not> isl (fst (chat_send_message env (length (trace w)) (heap w s) p)))]\<rparr>)"
  by (simp add: session_send_message_def split: prod.split sum.split)

lemma reset_eq:
  "reset c w =
     (next_session w,
      w\<lparr>conversations := (conversations w)(c \<mapsto> next_session w),
        heap := (heap w)(next_session w := []),
        next_session := Suc (next_session w)\<rparr>)"
  by (simp add: reset_def start_chat_def)

lemma get_or_create_eq:
  "get_or_create c w =
     (case conversations w c of
        Some s \<Rightarrow> (Inr s, w)
      | None \<Rightarrow> (Inr (next_session w), logger INFO (InitializedNewChatSession c) (snd (reset c w))))"
  by (simp add: get_or_create_def reset_eq logger_def Let_def split: option.split)

lemma start_eq:
  "start env u w =
     bot_send_message env (effective_chat_id u) (welcome_text (first_name_of u))
       (logger INFO (StartedNewChatSession (effective_chat_id u)) (snd (reset (effective_chat_id u) w)))"
  by (simp add: start_def Let_def)

lemma start_trace:
  "trace (snd (start env u w)) =
     trace w @ [(SendMessage (effective_chat_id u) (welcome_text (first_name_of u)),
                 send_message_raises env (length (trace w)) (effective_chat_id u)
                   (welcome_text (first_name_of u)) = None)]"
  by (simp add: start_eq bot_send_message_eq reset_eq logger_def)



lemma generate_response_ignored:
  "\<not> truthy (user_message_of u) \<Longrightarrow>
     generate_response env u w =
       (Inr (), logger INFO (NonTextOrEmptyMessage (effective_chat_id u)) w)"
  by (cases "user_message_of u")
     (simp_all add: generate_response_def user_message_of_def Let_def)

lemma generate_response_handled:
  assumes "user_message_of u = Some txt" and "txt \<noteq> []"
    and "get_or_create (effective_chat_id u)
           (logger INFO (ReceivedMessage (effective_chat_id u) txt) w) = (Inr s, w1)"
  shows "generate_response env u w =
     (case try_body env (effective_chat_id u) (first_name_of u) txt s w1 of
        (Inr _, w2) \<Rightarrow> (Inr (), w2)
      | (Inl e, w2) \<Rightarrow> except_handler env (effective_chat_id u) e w2)"
  using assms by (simp add: generate_response_def user_message_of_def Let_def)

lemma send_reply_eq:
  "send_reply env c r s w =
     (case send_message_raises env (length (trace w)) c (if s \<noteq> [] then s else no_text_fallback) of
        None \<Rightarrow> Inr () | Some e \<Rightarrow> Inl e,
      w\<lparr>trace := trace w @
            [(SendMessage c (if s \<noteq> [] then s else no_text_fallback),
              send_message_raises env (length (trace w)) c
                (if s \<noteq> [] then s else no_text_fallback) = None)],
        logs := logs w @
            [if s \<noteq> [] then (INFO, SendingReply s) else (WARNING, NoTextInGeminiResponse r)]\<rparr>)"
  by (simp add: send_reply_def bot_send_message_eq logger_def)

lemma except_handler_eq:
  "except_handler env c e w =
     (case send_message_raises env (length (trace w)) c error_fallback of
        None \<Rightarrow> Inr () | Some e' \<Rightarrow> Inl e',
      w\<lparr>trace := trace w @
            [(SendMessage c error_fallback,
              send_message_raises env (length (trace w)) c error_fallback = None)],
        logs := logs w @ [(ERROR, ErrorWithGeminiApi c e)]\<rparr>)"
  by (simp add: except_handler_def bot_send_message_eq logger_def)

lemma try_body_indicator_raises:
  assumes "send_chat_action_raises env (length (trace w)) c ''typing'' = Some e"
  shows "try_body env c name txt s w =
           (Inl e, w\<lparr>trace := trace w @ [(SendChatAction c ''typing'', False)]\<rparr>)"
  using assms by (simp add: try_body_def bot_send_chat_action_eq)

lemma try_body_model_raises:
  assumes "send_chat_action_raises env (length (trace w)) c ''typing'' = None"
    and "chat_send_message env (Suc (length (trace w))) (heap w s) (build_prompt name txt) = (Inl e, h)"
  shows "try_body env c name txt s w =
           (Inl e,
            w\<lparr>heap := (heap w)(s := h),
              trace := trace w @ [(SendChatAction c ''typing'', True),
                                  (ChatSendMessage s (build_prompt name txt), False)],
              logs := logs w @ [(INFO, SendingToGemini (build_prompt name txt))]\<rparr>)"
  using assms
  by (simp add: try_body_def bot_send_chat_action_eq session_send_message_eq logger_def Let_def)

lemma try_body_model_returns:
  assumes "send_chat_action_raises env (length (trace w)) c ''typing'' = None"
    and "chat_send_message env (Suc (length (trace w))) (heap w s) (build_prompt name txt) = (Inr r, h)"
  shows "try_body env c name txt s w =
           (case extract_reply r of
              Inl e \<Rightarrow> Inl e
            | Inr reply \<Rightarrow>
                (case send_message_raises env (Suc (Suc (length (trace w)))) c
                        (if reply \<noteq> [] then reply else no_text_fallback) of
                   None \<Rightarrow> Inr () | Some e \<Rightarrow> Inl e),
            w\<lparr>heap := (heap w)(s := h),
              trace := trace w @ [(SendChatAction c ''typing'', True),
                                  (ChatSendMessage s (build_prompt name txt), True)]
                @ (case extract_reply r of
                     Inl e \<Rightarrow> []
                   | Inr reply \<Rightarrow>
                       [(SendMessage c (if reply \<noteq> [] then reply else no_text_fallback),
                         send_message_raises env (Suc (Suc (length (trace w)))) c
                           (if reply \<noteq> [] then reply else no_text_fallback) = None)]),
              logs := logs w @ [(INFO, SendingToGemini (build_prompt name txt)),
                                (INFO, RawGeminiResponse r)]
                @ (case extract_reply r of
                     Inl e \<Rightarrow> []
                   | Inr reply \<Rightarrow>
                       [if reply \<noteq> [] then (INFO, SendingReply reply)
                        else (WARNING, NoTextInGeminiResponse r)])\<rparr>)"
  using assms
  by (simp add: try_body_def bot_send_chat_action_eq session_send_message_eq send_reply_eq
        logger_def Let_def split: sum.split)

lemma get_or_create_keeps:
  assumes "get_or_create c w = (r, w1)"
  shows "trace w1 = trace w"
    and "conversations w1 = (case conversations w c of
                               Some s \<Rightarrow> conversations w
                             | None \<Rightarrow> (conversations w)(c \<mapsto> next_session w))"
  using assms by (auto simp: get_or_create_eq reset_eq logger_def split: option.splits)

section \<open>A handled message event, case by case\<close>

lemma get_or_create_session:
  "\<exists>w1. get_or_create c w = (Inr (session_for c w), w1)
      \<and> trace w1 = trace w
      \<and> heap w1 (session_for c w) = history_for c w
      \<and> conversations w1 = (conversations w)(c \<mapsto> session_for c w)"
  by (cases "conversations w c")
     (auto simp: get_or_create_eq reset_eq logger_def session_for_def history_for_def)

lemma generate_response_unfold:
  assumes "user_message_of u = Some txt" and "txt \<noteq> []"
  obtains w1 where
    "trace w1 = trace w"
    "heap w1 (session_for (effective_chat_id u) w) = history_for (effective_chat_id u) w"
    "conversations w1 = (conversations w)(effective_chat_id u \<mapsto> session_for (effective_chat_id u) w)"
    "generate_response env u w =
       (case try_body env (effective_chat_id u) (first_name_of u) txt
               (session_for (effective_chat_id u) w) w1 of
          (Inr _, w2) \<Rightarrow> (Inr (), w2)
        | (Inl e, w2) \<Rightarrow> except_handler env (effective_chat_id u) e w2)"
proof -
  let ?c = "effective_chat_id u"
  let ?w0 = "logger INFO (ReceivedMessage ?c txt) w"
  have same: "session_for ?c ?w0 = session_for ?c w" "history_for ?c ?w0 = history_for ?c w"
    "trace ?w0 = trace w" "conversations ?w0 = conversations w"
    by (simp_all add: logger_def session_for_def history_for_def split: option.split)
  from get_or_create_session [of ?c ?w0] obtain w1 where
    g: "get_or_create ?c ?w0 = (Inr (session_for ?c w), w1)"
    and t: "trace w1 = trace w"
    and h: "heap w1 (session_for ?c w) = history_for ?c w"
    and r: "conversations w1 = (conversations w)(?c \<mapsto> session_for ?c w)"
    by (auto simp: same)
  from generate_response_handled [OF assms g] t h r that show thesis by blast
qed

lemma answer_indicator_raises:
  assumes "user_message_of u = Some txt" and "txt \<noteq> []"
    and "send_chat_action_raises env (length (trace w)) (effective_chat_id u) ''typing'' = Some e"
  shows "new_calls w (snd (generate_response env u w)) =
           [(SendChatAction (effective_chat_id u) ''typing'', False),
            (SendMessage (effective_chat_id u) error_fallback,
             send_message_raises env (Suc (length (trace w))) (effective_chat_id u) error_fallback = None)]"
    and "fst (generate_response env u w) =
           (case send_message_raises env (Suc (length (trace w))) (effective_chat_id u) error_fallback of
              None \<Rightarrow> Inr () | Some e' \<Rightarrow> Inl e')"
    and "conversations (snd (generate_response env u w)) =
           (conversations w)(effective_chat_id u \<mapsto> session_for (effective_chat_id u) w)"
    and "last (logs (snd (generate_response env u w))) = (ERROR, ErrorWithGeminiApi (effective_chat_id u) e)"
proof -
  let ?c = "effective_chat_id u"
  from generate_response_unfold [OF assms(1,2), of w env] obtain w1 where
    t: "trace w1 = trace w"
    and r: "conversations w1 = (conversations w)(?c \<mapsto> session_for ?c w)"
    and g: "generate_response env u w =
       (case try_body env ?c (first_name_of u) txt (session_for ?c w) w1 of
          (Inr _, w2) \<Rightarrow> (Inr (), w2)
        | (Inl e, w2) \<Rightarrow> except_handler env ?c e w2)"
    by blast
  from assms(3) t have "send_chat_action_raises env (length (trace w1)) ?c ''typing'' = Some e"
    by simp
  then have b: "try_body env ?c (first_name_of u) txt (session_for ?c w) w1 =
           (Inl e, w1\<lparr>trace := trace w1 @ [(SendChatAction ?c ''typing'', False)]\<rparr>)"
    by (rule try_body_indicator_raises)
  show "new_calls w (snd (generate_response env u w)) =
           [(SendChatAction ?c ''typing'', False),
            (SendMessage ?c error_fallback,
             send_message_raises env (Suc (length (trace w))) ?c error_fallback = None)]"
    by (simp add: g b except_handler_eq new_calls_def t)
  show "fst (generate_response env u w) =
           (case send_message_raises env (Suc (length (trace w))) ?c error_fallback of
              None \<Rightarrow> Inr () | Some e' \<Rightarrow> Inl e')"
    by (simp add: g b except_handler_eq t)
  show "conversations (snd (generate_response env u w)) =
           (conversations w)(?c \<mapsto> session_for ?c w)"
    by (simp add: g b except_handler_eq r)
  show "last (logs (snd (generate_response env u w))) = (ERROR, ErrorWithGeminiApi ?c e)"
    by (simp add: g b except_handler_eq)
qed


lemma answer_model_raises:
  assumes "user_message_of u = Some txt" and "txt \<noteq> []"
    and "send_chat_action_raises env (length (trace w)) (effective_chat_id u) ''typing'' = None"
    and "fst (model_answer env u txt w) = Inl e"
  shows "new_calls w (snd (generate_response env u w)) =
           [(SendChatAction (effective_chat_id u) ''typing'', True),
            (ChatSendMessage (session_for (effective_chat_id u) w)
               (build_prompt (first_name_of u) txt), False),
            (SendMessage (effective_chat_id u) error_fallback,
             send_message_raises env (Suc (Suc (length (trace w)))) (effective_chat_id u)
               error_fallback = None)]"
    and "fst (generate_response env u w) =
           (case send_message_raises env (Suc (Suc (length (trace w)))) (effective_chat_id u)
                   error_fallback of
              None \<Rightarrow> Inr () | Some e' \<Rightarrow> Inl e')"
    and "conversations (snd (generate_response env u w)) =
           (conversations w)(effective_chat_id u \<mapsto> session_for (effective_chat_id u) w)"
    and "last (logs (snd (generate_response env u w))) = (ERROR, ErrorWithGeminiApi (effective_chat_id u) e)"
proof -
  let ?c = "effective_chat_id u"
  let ?s = "session_for ?c w"
  let ?p = "build_prompt (first_name_of u) txt"
  from generate_response_unfold [OF assms(1,2), of w env] obtain w1 where
    t: "trace w1 = trace w"
    and h: "heap w1 ?s = history_for ?c w"
    and r: "conversations w1 = (conversations w)(?c \<mapsto> ?s)"
    and g: "generate_response env u w =
       (case try_body env ?c (first_name_of u) txt ?s w1 of
          (Inr _, w2) \<Rightarrow> (Inr (), w2)
        | (Inl e, w2) \<Rightarrow> except_handler env ?c e w2)"
    by blast
  from assms(3) t have a: "send_chat_action_raises env (length (trace w1)) ?c ''typing'' = None"
    by simp
  from assms(4) t h have "fst (chat_send_message env (Suc (length (trace w1))) (heap w1 ?s) ?p) = Inl e"
    by (simp add: model_answer_def)
  then obtain hs where m: "chat_send_message env (Suc (length (trace w1))) (heap w1 ?s) ?p = (Inl e, hs)"
    by (cases "chat_send_message env (Suc (length (trace w1))) (heap w1 ?s) ?p") simp
  note b = try_body_model_raises [OF a m]
  show "new_calls w (snd (generate_response env u w)) =
           [(SendChatAction ?c ''typing'', True), (ChatSendMessage ?s ?p, False),
            (SendMessage ?c error_fallback,
             send_message_raises env (Suc (Suc (length (trace w)))) ?c error_fallback = None)]"
    by (simp add: g b except_handler_eq new_calls_def t)
  show "fst (generate_response env u w) =
           (case send_message_raises env (Suc (Suc (length (trace w)))) ?c error_fallback of
              None \<Rightarrow> Inr () | Some e' \<Rightarrow> Inl e')"
    by (simp add: g b except_handler_eq t)
  show "conversations (snd (generate_response env u w)) = (conversations w)(?c \<mapsto> ?s)"
    by (simp add: g b except_handler_eq r)
  show "last (logs (snd (generate_response env u w))) = (ERROR, ErrorWithGeminiApi ?c e)"
    by (simp add: g b except_handler_eq)
qed

text \<open>The loop over the parts and the whole extraction, against the specification's wording.\<close>

lemma first_part_text_spec:
  "first_part_text ps =
     (case find (\<lambda>p. raising (part_text p) \<noteq> None \<or> exposed (part_text p) \<noteq> []) ps of
        Some p \<Rightarrow>
          (case raising (part_text p) of
             Some e \<Rightarrow> Inl e
           | None \<Rightarrow>
               Inr (case filter (\<lambda>s. s \<noteq> []) (map (\<lambda>p. exposed (part_text p)) ps) of
                      [] \<Rightarrow> [] | s # _ \<Rightarrow> s))
      | None \<Rightarrow>
          Inr (case filter (\<lambda>s. s \<noteq> []) (map (\<lambda>p. exposed (part_text p)) ps) of
                 [] \<Rightarrow> [] | s # _ \<Rightarrow> s))"
proof (induction ps)
  case Nil
  then show ?case by simp
next
  case (Cons p ps)
  show ?case
  proof (cases "part_text p")
    case Missing
    with Cons show ?thesis by (simp add: has_text_def split: option.split)
  next
    case (Raises e)
    then show ?thesis by (simp add: has_text_def)
  next
    case (Value v)
    show ?thesis
    proof (cases v)
      case None
      with Value Cons show ?thesis by (simp add: has_text_def split: option.split)
    next
      case (Some s)
      with Value Cons show ?thesis
        by (cases "s = []") (simp_all add: has_text_def take_text_def split: option.split)
    qed
  qed
qed

lemma extract_reply_spec:
  "extract_reply r = (case read_error r of Some e \<Rightarrow> Inl e | None \<Rightarrow> Inr (spec_reply r))"
proof (cases "response_text r")
  case (Raises e)
  then show ?thesis by (simp add: extract_reply_def read_error_def has_text_def)
next
  case Missing
  then show ?thesis
    by (cases "parts r")
       (auto simp: extract_reply_def read_error_def spec_reply_def part_texts_def parts_of_def
          has_text_def first_part_text_spec split: option.split)
next
  case (Value v)
  show ?thesis
  proof (cases "exposed (response_text r) = []")
    case True
    with Value show ?thesis
      by (cases "parts r"; cases v)
         (auto simp: extract_reply_def read_error_def spec_reply_def part_texts_def parts_of_def
            has_text_def first_part_text_spec split: option.split)
  next
    case False
    with Value show ?thesis
      by (cases v)
         (simp_all add: extract_reply_def read_error_def spec_reply_def has_text_def take_text_def)
  qed
qed

lemma answer_extraction_raises:
  assumes "user_message_of u = Some txt" and "txt \<noteq> []"
    and "send_chat_action_raises env (length (trace w)) (effective_chat_id u) ''typing'' = None"
    and "fst (model_answer env u txt w) = Inr r"
    and "read_error r = Some e"
  shows "new_calls w (snd (generate_response env u w)) =
           [(SendChatAction (effective_chat_id u) ''typing'', True),
            (ChatSendMessage (session_for (effective_chat_id u) w)
               (build_prompt (first_name_of u) txt), True),
            (SendMessage (effective_chat_id u) error_fallback,
             send_message_raises env (Suc (Suc (length (trace w)))) (effective_chat_id u)
               error_fallback = None)]"
    and "fst (generate_response env u w) =
           (case send_message_raises env (Suc (Suc (length (trace w)))) (effective_chat_id u)
                   error_fallback of
              None \<Rightarrow> Inr () | Some e' \<Rightarrow> Inl e')"
    and "conversations (snd (generate_response env u w)) =
           (conversations w)(effective_chat_id u \<mapsto> session_for (effective_chat_id u) w)"
    and "last (logs (snd (generate_response env u w))) = (ERROR, ErrorWithGeminiApi (effective_chat_id u) e)"
proof -
  let ?c = "effective_chat_id u"
  let ?s = "session_for ?c w"
  let ?p = "build_prompt (first_name_of u) txt"
  from generate_response_unfold [OF assms(1,2), of w env] obtain w1 where
    t: "trace w1 = trace w"
    and h: "heap w1 ?s = history_for ?c w"
    and c: "conversations w1 = (conversations w)(?c \<mapsto> ?s)"
    and g: "generate_response env u w =
       (case try_body env ?c (first_name_of u) txt ?s w1 of
          (Inr _, w2) \<Rightarrow> (Inr (), w2)
        | (Inl e, w2) \<Rightarrow> except_handler env ?c e w2)"
    by blast
  from assms(3) t have a: "send_chat_action_raises env (length (trace w1)) ?c ''typing'' = None"
    by simp
  from assms(4) t h have "fst (chat_send_message env (Suc (length (trace w1))) (heap w1 ?s) ?p) = Inr r"
    by (simp add: model_answer_def)
  then obtain hs where m: "chat_send_message env (Suc (length (trace w1))) (heap w1 ?s) ?p = (Inr r, hs)"
    by (cases "chat_send_message env (Suc (length (trace w1))) (heap w1 ?s) ?p") simp
  have x: "extract_reply r = Inl e" by (simp add: extract_reply_spec assms(5))
  note b = try_body_model_returns [OF a m]
  show "new_calls w (snd (generate_response env u w)) =
           [(SendChatAction ?c ''typing'', True), (ChatSendMessage ?s ?p, True),
            (SendMessage ?c error_fallback,
             send_message_raises env (Suc (Suc (length (trace w)))) ?c error_fallback = None)]"
    by (simp add: g b x except_handler_eq new_calls_def t)
  show "fst (generate_response env u w) =
           (case send_message_raises env (Suc (Suc (length (trace w)))) ?c error_fallback of
              None \<Rightarrow> Inr () | Some e' \<Rightarrow> Inl e')"
    by (simp add: g b x except_handler_eq t)
  show "conversations (snd (generate_response env u w)) = (conversations w)(?c \<mapsto> ?s)"
    by (simp add: g b x except_handler_eq c)
  show "last (logs (snd (generate_response env u w))) = (ERROR, ErrorWithGeminiApi ?c e)"
    by (simp add: g b x except_handler_eq)
qed

lemma answer_model_returns:
  assumes "user_message_of u = Some txt" and "txt \<noteq> []"
    and "send_chat_action_raises env (length (trace w)) (effective_chat_id u) ''typing'' = None"
    and "fst (model_answer env u txt w) = Inr r"
    and "read_error r = None"
  shows "new_calls w (snd (generate_response env u w)) =
           [(SendChatAction (effective_chat_id u) ''typing'', True),
            (ChatSendMessage (session_for (effective_chat_id u) w)
               (build_prompt (first_name_of u) txt), True),
            (SendMessage (effective_chat_id u) (answer_text r),
             send_message_raises env (Suc (Suc (length (trace w)))) (effective_chat_id u)
               (answer_text r) = None)]
           @ (case send_message_raises env (Suc (Suc (length (trace w)))) (effective_chat_id u)
                     (answer_text r) of
                None \<Rightarrow> []
              | Some e \<Rightarrow>
                  [(SendMessage (effective_chat_id u) error_fallback,
                    send_message_raises env (Suc (Suc (Suc (length (trace w)))))
                      (effective_chat_id u) error_fallback = None)])"
    and "fst (generate_response env u w) =
           (case send_message_raises env (Suc (Suc (length (trace w)))) (effective_chat_id u)
                   (answer_text r) of
              None \<Rightarrow> Inr ()
            | Some e \<Rightarrow>
                (case send_message_raises env (Suc (Suc (Suc (length (trace w)))))
                        (effective_chat_id u) error_fallback of
                   None \<Rightarrow> Inr () | Some e' \<Rightarrow> Inl e'))"
    and "conversations (snd (generate_response env u w)) =
           (conversations w)(effective_chat_id u \<mapsto> session_for (effective_chat_id u) w)"
    and "last (logs (snd (generate_response env u w))) =
           (case send_message_raises env (Suc (Suc (length (trace w)))) (effective_chat_id u)
                   (answer_text r) of
              None \<Rightarrow>
                if spec_reply r \<noteq> [] then (INFO, SendingReply (spec_reply r))
                else (WARNING, NoTextInGeminiResponse r)
            | Some e \<Rightarrow> (ERROR, ErrorWithGeminiApi (effective_chat_id u) e))"
proof -
  let ?c = "effective_chat_id u"
  let ?s = "session_for ?c w"
  let ?p = "build_prompt (first_name_of u) txt"
  from generate_response_unfold [OF assms(1,2), of w env] obtain w1 where
    t: "trace w1 = trace w"
    and h: "heap w1 ?s = history_for ?c w"
    and c: "conversations w1 = (conversations w)(?c \<mapsto> ?s)"
    and g: "generate_response env u w =
       (case try_body env ?c (first_name_of u) txt ?s w1 of
          (Inr _, w2) \<Rightarrow> (Inr (), w2)
        | (Inl e, w2) \<Rightarrow> except_handler env ?c e w2)"
    by blast
  from assms(3) t have a: "send_chat_action_raises env (length (trace w1)) ?c ''typing'' = None"
    by simp
  from assms(4) t h have "fst (chat_send_message env (Suc (length (trace w1))) (heap w1 ?s) ?p) = Inr r"
    by (simp add: model_answer_def)
  then obtain hs where m: "chat_send_message env (Suc (length (trace w1))) (heap w1 ?s) ?p = (Inr r, hs)"
    by (cases "chat_send_message env (Suc (length (trace w1))) (heap w1 ?s) ?p") simp
  have x: "extract_reply r = Inr (spec_reply r)" by (simp add: extract_reply_spec assms(5))
  note b = try_body_model_returns [OF a m]
  show "new_calls w (snd (generate_response env u w)) =
           [(SendChatAction ?c ''typing'', True), (ChatSendMessage ?s ?p, True),
            (SendMessage ?c (answer_text r),
             send_message_raises env (Suc (Suc (length (trace w)))) ?c (answer_text r) = None)]
           @ (case send_message_raises env (Suc (Suc (length (trace w)))) ?c (answer_text r) of
                None \<Rightarrow> []
              | Some e \<Rightarrow>
                  [(SendMessage ?c error_fallback,
                    send_message_raises env (Suc (Suc (Suc (length (trace w))))) ?c
                      error_fallback = None)])"
    by (simp add: g b x answer_text_def except_handler_eq new_calls_def t split: option.split)
  show "fst (generate_response env u w) =
           (case send_message_raises env (Suc (Suc (length (trace w)))) ?c (answer_text r) of
              None \<Rightarrow> Inr ()
            | Some e \<Rightarrow>
                (case send_message_raises env (Suc (Suc (Suc (length (trace w))))) ?c
                        error_fallback of
                   None \<Rightarrow> Inr () | Some e' \<Rightarrow> Inl e'))"
    by (simp add: g b x answer_text_def except_handler_eq t split: option.split)
  show "conversations (snd (generate_response env u w)) = (conversations w)(?c \<mapsto> ?s)"
    by (simp add: g b x answer_text_def except_handler_eq c split: option.split)
  show "last (logs (snd (generate_response env u w))) =
           (case send_message_raises env (Suc (Suc (length (trace w)))) ?c (answer_text r) of
              None \<Rightarrow>
                if spec_reply r \<noteq> [] then (INFO, SendingReply (spec_reply r))
                else (WARNING, NoTextInGeminiResponse r)
            | Some e \<Rightarrow> (ERROR, ErrorWithGeminiApi ?c e))"
    by (simp add: g b x answer_text_def except_handler_eq t split: option.split)
qed

section \<open>The try block as a whole\<close>

lemma delivered_Cons:
  "delivered ((SendMessage c t, b) # cs) = (if b then (c, t) # delivered cs else delivered cs)"
  by (cases b) simp_all

lemma try_body_trace:
  assumes "try_body env c n m s w = (r, w2)"
  shows "\<exists>xs. trace w2 = trace w @ xs \<and> (\<forall>e. r = Inl e \<longrightarrow> delivered xs = [])"
  using assms
  by (auto simp: try_body_def bot_send_chat_action_eq session_send_message_eq send_reply_eq
        logger_def Let_def delivered_Cons split: option.splits sum.splits prod.splits)

lemma try_body_frame:
  "conversations (snd (try_body env c n m s w)) = conversations w
   \<and> next_session (snd (try_body env c n m s w)) = next_session w"
  by (simp add: try_body_def bot_send_chat_action_eq session_send_message_eq send_reply_eq
        logger_def Let_def split: option.split sum.split prod.split)

lemma generate_response_try:
  assumes "user_message_of u = Some m" and "m \<noteq> []"
  shows "generate_response env u w =
     (case try_outcome env u m w of
        (Inr _, w2) \<Rightarrow> (Inr (), w2)
      | (Inl e, w2) \<Rightarrow> except_handler env (effective_chat_id u) e w2)"
proof -
  let ?c = "effective_chat_id u"
  let ?w0 = "logger INFO (ReceivedMessage ?c m) w"
  have same: "session_for ?c ?w0 = session_for ?c w"
    by (simp add: logger_def session_for_def split: option.split)
  from get_or_create_session [of ?c ?w0] obtain w1 where
    g: "get_or_create ?c ?w0 = (Inr (session_for ?c w), w1)"
    by (auto simp: same)
  from generate_response_handled [OF assms g] g show ?thesis
    by (simp add: try_outcome_def)
qed

lemma try_outcome_trace:
  assumes "try_outcome env u m w = (r, w2)"
  shows "\<exists>xs. trace w2 = trace w @ xs \<and> (\<forall>e. r = Inl e \<longrightarrow> delivered xs = [])"
proof -
  let ?c = "effective_chat_id u"
  let ?w1 = "snd (get_or_create ?c (logger INFO (ReceivedMessage ?c m) w))"
  have "trace ?w1 = trace w"
    by (simp add: get_or_create_eq reset_eq logger_def split: option.split)
  with try_body_trace [of env ?c "first_name_of u" m "session_for ?c w" ?w1 r w2] assms
  show ?thesis by (simp add: try_outcome_def)
qed

lemma sends_Cons:
  "sends ((SendMessage c s, b) # cs) = ((c, s), b) # sends cs"
  "sends ((SendChatAction c a, b) # cs) = sends cs"
  "sends ((ChatSendMessage x p, b) # cs) = sends cs"
  by simp_all

lemma generate_response_trace:
  "trace (snd (generate_response env u w)) = trace w @ new_calls w (snd (generate_response env u w))"
proof (cases "truthy (user_message_of u)")
  case False
  then show ?thesis by (simp add: generate_response_ignored logger_def new_calls_def)
next
  case True
  then obtain m where m: "user_message_of u = Some m" "m \<noteq> []"
    by (cases "user_message_of u") auto
  obtain r w2 where o: "try_outcome env u m w = (r, w2)" by (cases "try_outcome env u m w")
  from try_outcome_trace [OF o] obtain xs where xs: "trace w2 = trace w @ xs" by auto
  show ?thesis
    by (cases r) (simp_all add: generate_response_try [OF m] o except_handler_eq xs new_calls_def)
qed

section \<open>The start handler and the sessions the dictionary holds\<close>

lemma start_state:
  "conversations (snd (start env u w)) = (conversations w)(effective_chat_id u \<mapsto> next_session w)"
  "heap (snd (start env u w)) = (heap w)(next_session w := [])"
  "next_session (snd (start env u w)) = Suc (next_session w)"
  by (simp_all add: start_eq bot_send_message_eq reset_eq logger_def)

lemma registry_ok_initial: "registry_ok initial_world"
  by (simp add: registry_ok_def initial_world_def)

lemma registry_ok_start: "registry_ok w \<Longrightarrow> registry_ok (snd (start env u w))"
  by (auto simp: registry_ok_def allocated_def start_state less_Suc_eq split: if_splits)

lemma registry_ok_get_or_create: "registry_ok w \<Longrightarrow> registry_ok (snd (get_or_create c w))"
  by (cases "conversations w c")
     (auto simp: registry_ok_def allocated_def get_or_create_eq reset_eq logger_def less_Suc_eq
        split: if_splits)

lemma registry_ok_cong:
  "conversations w' = conversations w \<Longrightarrow> next_session w' = next_session w \<Longrightarrow>
   registry_ok w' = registry_ok w"
  by (simp add: registry_ok_def allocated_def)

lemma registry_ok_generate_response:
  assumes "registry_ok w"
  shows "registry_ok (snd (generate_response env u w))"
proof (cases "truthy (user_message_of u)")
  case False
  with assms show ?thesis
    by (simp add: generate_response_ignored registry_ok_def allocated_def logger_def)
next
  case True
  then obtain m where m: "user_message_of u = Some m" "m \<noteq> []"
    by (cases "user_message_of u") auto
  let ?c = "effective_chat_id u"
  let ?w1 = "snd (get_or_create ?c (logger INFO (ReceivedMessage ?c m) w))"
  let ?t = "try_outcome env u m w"
  from assms have "registry_ok (logger INFO (ReceivedMessage ?c m) w)"
    by (simp add: registry_ok_def allocated_def logger_def)
  then have w1: "registry_ok ?w1" by (rule registry_ok_get_or_create)
  have "registry_ok (snd ?t) = registry_ok ?w1"
    by (rule registry_ok_cong) (simp_all add: try_outcome_def try_body_frame)
  with w1 have t: "registry_ok (snd ?t)" by simp
  show ?thesis
  proof (cases ?t)
    case (Pair r w2)
    with t have "registry_ok w2" by simp
    then show ?thesis
      by (cases r)
         (simp_all add: generate_response_try [OF m] Pair except_handler_eq registry_ok_def
            allocated_def)
  qed
qed

lemma registry_ok_run_polling:
  "registry_ok w \<Longrightarrow> registry_ok (run_polling env evs w)"
proof (induction evs arbitrary: w)
  case Nil
  then show ?case by simp
next
  case (Cons ev evs)
  have "registry_ok (snd (dispatch env ev w))"
    using Cons.prems by (cases ev) (simp_all add: registry_ok_start registry_ok_generate_response)
  then show ?case by (simp add: Cons.IH)
qed

lemma start_calls:
  "new_calls w (snd (start env u w)) =
     [(SendMessage (effective_chat_id u) (welcome_text (first_name_of u)),
       send_message_raises env (length (trace w)) (effective_chat_id u)
         (welcome_text (first_name_of u)) = None)]"
  by (simp add: new_calls_def start_trace)

lemma dispatch_trace:
  "trace (snd (dispatch env ev w)) = trace w @ new_calls w (snd (dispatch env ev w))"
  by (cases ev) (simp_all add: start_trace start_calls generate_response_trace)

text \<open>The definitions to unfold when a handler is run on a concrete input.\<close>

lemmas handler_defs =
  generate_response_def start_def get_or_create_def reset_def start_chat_def logger_def
  try_body_def send_reply_def extract_reply_def has_text_def take_text_def except_handler_def
  first_name_of_def
  bot_send_chat_action_def bot_send_message_def session_send_message_def
  user_message_of_def new_calls_def Let_def

section \<open>Properties\<close>




text \<open>
  C2. A message event whose text is absent or empty is ignored: the handler returns
  normally, the only effect is one line in the log; no client is called, so no message is
  sent, and the dictionary, the sessions and the allocation of sessions stay as they were.
\<close>

theorem C2_silent_ignore:
  assumes "\<not> truthy (user_message_of u)"
  shows "generate_response env u w =
           (Inr (), logger INFO (NonTextOrEmptyMessage (effective_chat_id u)) w)
       \<and> new_calls w (snd (generate_response env u w)) = []
       \<and> conversations (snd (generate_response env u w)) = conversations w
       \<and> heap (snd (generate_response env u w)) = heap w
       \<and> next_session (snd (generate_response env u w)) = next_session w"
  using assms by (simp add: generate_response_ignored logger_def new_calls_def)

theorem C2_silent_ignore_witness:
  "\<not> truthy (user_message_of photo_only)
   \<and> generate_response env_ok photo_only initial_world =
       (Inr (), logger INFO (NonTextOrEmptyMessage 42) initial_world)
   \<and> new_calls initial_world (snd (generate_response env_ok photo_only initial_world)) = []
   \<and> conversations (snd (generate_response env_ok photo_only initial_world)) = Map.empty"
  using C2_silent_ignore [of photo_only env_ok initial_world]
  by (simp add: photo_only_def user_message_of_def initial_world_def logger_def new_calls_def)

text \<open>
  C4. The lookup with lazy creation (lines 108 to 112): when the dictionary holds a session
  for the id, that session is returned and nothing changes; when it holds none, a new
  session with an empty history is created, stored under the id and returned (and one line
  is logged). In both cases a session is returned, never an exception: the \<^verbatim>\<open>KeyError\<close>
  of line 112 cannot occur.
\<close>

theorem C4_get_or_create:
  "(\<forall>s. conversations w c = Some s \<longrightarrow> get_or_create c w = (Inr s, w))
   \<and> (conversations w c = None \<longrightarrow>
        get_or_create c w =
          (Inr (next_session w),
           w\<lparr>conversations := (conversations w)(c \<mapsto> next_session w),
             heap := (heap w)(next_session w := []),
             next_session := Suc (next_session w),
             logs := logs w @ [(INFO, InitializedNewChatSession c)]\<rparr>))
   \<and> (\<exists>s. fst (get_or_create c w) = Inr s
            \<and> conversations (snd (get_or_create c w)) c = Some s)"
  by (cases "conversations w c") (simp_all add: get_or_create_eq reset_eq logger_def)

theorem C4_get_or_create_witness:
  "conversations initial_world 7 = None
   \<and> get_or_create 7 initial_world =
        (Inr 0, initial_world\<lparr>conversations := [7 \<mapsto> 0], heap := (\<lambda>_. [])(0 := []), next_session := 1,
                  logs := [(INFO, InitializedNewChatSession 7)]\<rparr>)
   \<and> get_or_create 7 (snd (get_or_create 7 initial_world))
        = (Inr 0, snd (get_or_create 7 initial_world))"
  using C4_get_or_create [of initial_world 7]
        C4_get_or_create [of "snd (get_or_create 7 initial_world)" 7]
  by (simp add: initial_world_def)

text \<open>
  C5. The reset of line 84 creates a session with an empty history and stores it under the
  id, whatever the dictionary held there. In a state where the dictionary holds only
  sessions created so far, the session stored by a start event did not exist before the
  event and was held under no id, and the lookup of lines 108 to 112 returns it afterwards.
  A second start event for the same id stores another new session, different from the
  first; the first is then held under no id at all, and the other ids keep their sessions.
\<close>

theorem C5_start_resets_session:
  assumes "registry_ok w" and "effective_chat_id u2 = effective_chat_id u1"
  shows "let c = effective_chat_id u1;
             w1 = snd (start env1 u1 w);
             w2 = snd (start env2 u2 w1);
             s1 = next_session w;
             s2 = next_session w1
         in reset c w =
              (s1, w\<lparr>conversations := (conversations w)(c \<mapsto> s1),
                     heap := (heap w)(s1 := []),
                     next_session := Suc s1\<rparr>)
          \<and> conversations w1 c = Some s1 \<and> heap w1 s1 = []
          \<and> \<not> allocated w s1 \<and> \<not> held w s1
          \<and> fst (get_or_create c w1) = Inr s1
          \<and> conversations w2 c = Some s2 \<and> heap w2 s2 = []
          \<and> s2 \<noteq> s1 \<and> \<not> allocated w1 s2 \<and> \<not> held w1 s2
          \<and> \<not> held w2 s1
          \<and> (\<forall>c'. c' \<noteq> c \<longrightarrow> conversations w2 c' = conversations w c')"
proof -
  have fresh: "\<not> held w (next_session w)"
    using assms(1) by (auto simp: registry_ok_def held_def allocated_def)
  have ok1: "registry_ok (snd (start env1 u1 w))" using assms(1) by (rule registry_ok_start)
  then have fresh1: "\<not> held (snd (start env1 u1 w)) (next_session (snd (start env1 u1 w)))"
    by (auto simp: registry_ok_def held_def allocated_def)
  have gone: "\<not> held (snd (start env2 u2 (snd (start env1 u1 w)))) (next_session w)"
    using fresh by (auto simp: held_def start_state assms(2) split: if_splits)
  show ?thesis
    using fresh fresh1 gone
    by (simp add: Let_def reset_eq start_state assms(2) allocated_def get_or_create_eq)
qed

theorem C5_start_resets_session_witness:
  "registry_ok initial_world \<and> effective_chat_id asha_start = effective_chat_id asha_start
   \<and> conversations (snd (start env_ok asha_start initial_world)) 42 = Some 0
   \<and> conversations (snd (start env_ok asha_start (snd (start env_ok asha_start initial_world)))) 42 = Some 1
   \<and> \<not> held (snd (start env_ok asha_start (snd (start env_ok asha_start initial_world)))) 0
   \<and> heap (snd (start env_ok asha_start (snd (start env_ok asha_start initial_world)))) 1 = []"
proof -
  have ok: "registry_ok initial_world" by (rule registry_ok_initial)
  have c: "effective_chat_id asha_start = 42" by (simp add: asha_start_def)
  have n: "next_session initial_world = 0" by (simp add: initial_world_def)
  from C5_start_resets_session [OF ok refl, of asha_start env_ok env_ok] ok
  show ?thesis by (simp add: Let_def start_state c n)
qed




text \<open>
  C9. When the key of the language model or the token of the messaging platform is missing
  from the environment (or empty), the script logs one critical line naming the missing
  variable and exits with status 1. That happens while the module is loaded: whatever events
  are waiting, none is dispatched, and neither the dictionary nor the event loop exists yet.
\<close>

theorem C9_missing_secret_exits:
  assumes "\<not> truthy (environ ''GOOGLE_API_KEY'') \<or> \<not> truthy (environ ''TELEGRAM_BOT_TOKEN'')"
  shows "\<exists>name. bot_process environ configure env events =
           SysExit 1 [(CRITICAL, FailedToLoadApiKeys
                         (ValueError (name @ '' not found in environment variables.'')))]"
  using assms by (auto simp: bot_process_def api_key_setup_def Let_def)

theorem C9_missing_secret_exits_witness:
  "truthy ([''GOOGLE_API_KEY'' \<mapsto> ''secret''] ''GOOGLE_API_KEY'')
   \<and> \<not> truthy ([''GOOGLE_API_KEY'' \<mapsto> ''secret''] ''TELEGRAM_BOT_TOKEN'')
   \<and> bot_process [''GOOGLE_API_KEY'' \<mapsto> ''secret''] (\<lambda>key. None) env_ok
         [StartCommand asha_start, TextMessage how_are_you] =
       SysExit 1 [(CRITICAL, FailedToLoadApiKeys
                     (ValueError ''TELEGRAM_BOT_TOKEN not found in environment variables.''))]"
  using C9_missing_secret_exits [of "[''GOOGLE_API_KEY'' \<mapsto> ''secret'']" "\<lambda>key. None" env_ok
          "[StartCommand asha_start, TextMessage how_are_you]"]
  by (simp add: bot_process_def api_key_setup_def Let_def)

text \<open>
  C10. The start handler sends its welcome message in a state where the dictionary already
  holds the new session. So after every start event the dictionary maps the id to the newly
  created session, whose history is empty; when the send raises, the exception leaves the
  handler, nothing is delivered, and the new session stays in the dictionary.
\<close>

theorem C10_start_registers_first:
  "start env u w =
     bot_send_message env (effective_chat_id u) (welcome_text (first_name_of u))
       (logger INFO (StartedNewChatSession (effective_chat_id u)) (snd (reset (effective_chat_id u) w)))
   \<and> conversations (snd (reset (effective_chat_id u) w)) (effective_chat_id u) = Some (next_session w)
   \<and> conversations (snd (start env u w)) (effective_chat_id u) = Some (next_session w)
   \<and> heap (snd (start env u w)) (next_session w) = []
   \<and> (\<forall>e. send_message_raises env (length (trace w)) (effective_chat_id u)
              (welcome_text (first_name_of u)) = Some e
         \<longrightarrow> fst (start env u w) = Inl e
           \<and> delivered (new_calls w (snd (start env u w))) = []
           \<and> conversations (snd (start env u w)) (effective_chat_id u) = Some (next_session w))"
  by (simp add: start_eq bot_send_message_eq reset_eq logger_def new_calls_def)

theorem C10_start_registers_first_witness:
  "send_message_raises env_no_send (length (trace initial_world)) (effective_chat_id asha_start)
      (welcome_text (first_name_of asha_start)) = Some (ClientError ''network'')
   \<and> fst (start env_no_send asha_start initial_world) = Inl (ClientError ''network'')
   \<and> delivered (new_calls initial_world (snd (start env_no_send asha_start initial_world))) = []
   \<and> conversations (snd (start env_no_send asha_start initial_world)) 42 = Some 0
   \<and> heap (snd (start env_no_send asha_start initial_world)) 0 = []"
  using C10_start_registers_first [of env_no_send asha_start initial_world]
  by (simp add: env_no_send_def asha_start_def initial_world_def bot_send_message_eq reset_eq
        logger_def new_calls_def)

text \<open>
  C3, as the code has it. For a message event with a text, when a step of the \<^verbatim>\<open>try\<close>
  block raises \<open>e\<close> (the indicator call, the call of the language model, a read of the
  response while the reply is looked for, or the send of the answer), the handler logs
  \<open>e\<close> at level ERROR with the chat id and, as its last client call, sends the fixed text
  of line 147 to the same chat. When that send returns, the handler returns normally and the
  fixed text is the only message delivered. When that send raises too, its exception is not
  caught: it leaves the handler, and nothing has been delivered.
\<close>

theorem C3_step_failure_answered_by_fallback:
  assumes "user_message_of u = Some m" and "m \<noteq> []"
    and "step_error env u m w = Some e"
  shows "let w' = snd (generate_response env u w);
             c = effective_chat_id u;
             out = send_message_raises env (length (trace w') - 1) c error_fallback
         in last (logs w') = (ERROR, ErrorWithGeminiApi c e)
          \<and> last (trace w') = (SendMessage c error_fallback, out = None)
          \<and> fst (generate_response env u w) = (case out of None \<Rightarrow> Inr () | Some e' \<Rightarrow> Inl e')
          \<and> delivered (new_calls w w') = (if out = None then [(c, error_fallback)] else [])"
proof -
  let ?c = "effective_chat_id u"
  let ?w' = "snd (generate_response env u w)"
  note tr = generate_response_trace [of env u w]
  show ?thesis
  proof (cases "send_chat_action_raises env (length (trace w)) ?c ''typing''")
    case (Some e0)
    with assms(3) have e: "e0 = e" by (simp add: step_error_def)
    note f = answer_indicator_raises [OF assms(1,2) Some]
    have t: "trace ?w' = trace w @ new_calls w ?w'" by (rule tr)
    show ?thesis
      by (simp add: Let_def t f e delivered_Cons split: option.split)
  next
    case None
    show ?thesis
    proof (cases "fst (model_answer env u m w)")
      case (Inl e0)
      with assms(3) None have e: "e0 = e" by (simp add: step_error_def)
      note f = answer_model_raises [OF assms(1,2) None Inl]
      have t: "trace ?w' = trace w @ new_calls w ?w'" by (rule tr)
      show ?thesis
        by (simp add: Let_def t f e delivered_Cons split: option.split)
    next
      case (Inr r)
      show ?thesis
      proof (cases "read_error r")
        case (Some e0)
        with assms(3) None Inr have e: "e0 = e" by (simp add: step_error_def)
        note f = answer_extraction_raises [OF assms(1,2) None Inr Some]
        have t: "trace ?w' = trace w @ new_calls w ?w'" by (rule tr)
        show ?thesis
          by (simp add: Let_def t f e delivered_Cons split: option.split)
      next
        case ok: None
        with assms(3) None Inr
        have s: "send_message_raises env (Suc (Suc (length (trace w)))) ?c (answer_text r) = Some e"
          by (simp add: step_error_def)
        note f = answer_model_returns [OF assms(1,2) None Inr ok]
        have t: "trace ?w' = trace w @ new_calls w ?w'" by (rule tr)
        show ?thesis
          by (simp add: Let_def t f s delivered_Cons split: option.split)
      qed
    qed
  qed
qed

theorem C3_step_failure_answered_by_fallback_witness:
  "user_message_of hello_seven = Some ''hello'' \<and> ''hello'' \<noteq> []
   \<and> step_error env_model_down hello_seven ''hello'' initial_world = Some (ClientError ''network'')
   \<and> fst (generate_response env_model_down hello_seven initial_world) = Inr ()
   \<and> delivered (new_calls initial_world (snd (generate_response env_model_down hello_seven initial_world))) =
        [(7, error_fallback)]
   \<and> last (logs (snd (generate_response env_model_down hello_seven initial_world))) =
        (ERROR, ErrorWithGeminiApi 7 (ClientError ''network''))"
  using C3_step_failure_answered_by_fallback
          [of hello_seven "''hello''" env_model_down initial_world "ClientError ''network''"]
  by (simp add: hello_seven_def env_model_down_def initial_world_def step_error_def
        model_answer_def history_for_def handler_defs)

text \<open>
  The claim as stated fails: with the messaging platform unreachable, the indicator call
  raises, the send of the fixed text raises as well, and the handler ends with that
  exception instead of returning normally.
\<close>

theorem C3_fallback_send_failure_propagates:
  "user_message_of how_are_you = Some ''How are you?''
   \<and> step_error env_platform_down how_are_you ''How are you?'' initial_world =
        Some (ClientError ''network'')
   \<and> fst (try_outcome env_platform_down how_are_you ''How are you?'' initial_world) =
        Inl (ClientError ''network'')
   \<and> fst (generate_response env_platform_down how_are_you initial_world) =
        Inl (ClientError ''network'')
   \<and> delivered (trace (snd (generate_response env_platform_down how_are_you initial_world))) = []"
  by (simp add: how_are_you_def env_platform_down_def initial_world_def try_outcome_def
        session_for_def step_error_def handler_defs)

text \<open>
  C6, as the code has it. The indicator call is the first statement of the \<^verbatim>\<open>try\<close>
  block. When it raises, the rest of the block is skipped: no prompt is submitted to the
  language model, the exception is logged at level ERROR, and the only message sent is the
  fixed text of line 147. The handler returns normally when that send returns, and ends
  with the send's exception otherwise.
\<close>

theorem C6_indicator_failure_skips_the_model:
  assumes "user_message_of u = Some m" and "m \<noteq> []"
    and "send_chat_action_raises env (length (trace w)) (effective_chat_id u) ''typing'' = Some e"
  shows "prompts (new_calls w (snd (generate_response env u w))) = []
       \<and> attempted (new_calls w (snd (generate_response env u w))) =
           [(effective_chat_id u, error_fallback)]
       \<and> last (logs (snd (generate_response env u w))) =
           (ERROR, ErrorWithGeminiApi (effective_chat_id u) e)
       \<and> (send_message_raises env (Suc (length (trace w))) (effective_chat_id u) error_fallback = None
            \<longrightarrow> fst (generate_response env u w) = Inr ()
              \<and> delivered (new_calls w (snd (generate_response env u w))) =
                  [(effective_chat_id u, error_fallback)])
       \<and> (\<forall>e'. send_message_raises env (Suc (length (trace w))) (effective_chat_id u) error_fallback = Some e'
            \<longrightarrow> fst (generate_response env u w) = Inl e'
              \<and> delivered (new_calls w (snd (generate_response env u w))) = [])"
  by (simp add: answer_indicator_raises [OF assms] delivered_Cons)

theorem C6_indicator_failure_skips_the_model_witness:
  "user_message_of how_are_you = Some ''How are you?'' \<and> ''How are you?'' \<noteq> []
   \<and> send_chat_action_raises env_no_indicator (length (trace initial_world))
        (effective_chat_id how_are_you) ''typing'' = Some (ClientError ''timed out'')
   \<and> prompts (new_calls initial_world (snd (generate_response env_no_indicator how_are_you initial_world))) = []
   \<and> fst (generate_response env_no_indicator how_are_you initial_world) = Inr ()
   \<and> delivered (new_calls initial_world (snd (generate_response env_no_indicator how_are_you initial_world))) =
        [(42, error_fallback)]"
  using C6_indicator_failure_skips_the_model
          [of how_are_you "''How are you?''" env_no_indicator initial_world "ClientError ''timed out''"]
  by (simp add: how_are_you_def env_no_indicator_def initial_world_def user_message_of_def)

text \<open>
  The claim as stated fails: when only the indicator call fails, the handler makes two
  client calls, the indicator and the fixed text of line 147, and never calls the model,
  which would have been called (and would have answered) had the indicator call returned.
\<close>

theorem C6_model_not_called_after_indicator_failure:
  "truthy (user_message_of how_are_you)
   \<and> send_chat_action_raises env_no_indicator 0 42 ''typing'' = Some (ClientError ''timed out'')
   \<and> prompts (trace (snd (generate_response env_no_indicator how_are_you initial_world))) = []
   \<and> trace (snd (generate_response env_no_indicator how_are_you initial_world)) =
        [(SendChatAction 42 ''typing'', False), (SendMessage 42 error_fallback, True)]
   \<and> prompts (trace (snd (generate_response env_ok how_are_you initial_world))) =
        [(0, build_prompt ''Asha'' ''How are you?'')]"
  by (simp add: how_are_you_def env_no_indicator_def env_ok_def initial_world_def handler_defs)

text \<open>
  C8. A message event with a text arrives for an id without a session, the indicator call
  returns and the language model raises. Then the handler sends exactly one message, the
  fixed text of line 147, to that chat (delivered, with a normal return, when the send
  returns), and the dictionary afterwards holds, for that id, the session that was created
  for the event and to which the prompt was submitted.
\<close>

theorem C8_model_failure_keeps_session:
  assumes "user_message_of u = Some m" and "m \<noteq> []"
    and "conversations w (effective_chat_id u) = None"
    and "send_chat_action_raises env (length (trace w)) (effective_chat_id u) ''typing'' = None"
    and "fst (model_answer env u m w) = Inl e"
  shows "attempted (new_calls w (snd (generate_response env u w))) =
           [(effective_chat_id u, error_fallback)]
       \<and> conversations (snd (generate_response env u w)) (effective_chat_id u) = Some (next_session w)
       \<and> \<not> allocated w (next_session w)
       \<and> prompts (new_calls w (snd (generate_response env u w))) =
           [(next_session w, build_prompt (first_name_of u) m)]
       \<and> (send_message_raises env (Suc (Suc (length (trace w)))) (effective_chat_id u)
             error_fallback = None
            \<longrightarrow> fst (generate_response env u w) = Inr ()
              \<and> delivered (new_calls w (snd (generate_response env u w))) =
                  [(effective_chat_id u, error_fallback)])"
  using assms(3)
  by (simp add: answer_model_raises [OF assms(1,2,4,5)] delivered_Cons session_for_def allocated_def)

theorem C8_model_failure_keeps_session_witness:
  "user_message_of hello_seven = Some ''hello'' \<and> ''hello'' \<noteq> []
   \<and> conversations initial_world (effective_chat_id hello_seven) = None
   \<and> send_chat_action_raises env_model_down (length (trace initial_world))
        (effective_chat_id hello_seven) ''typing'' = None
   \<and> fst (model_answer env_model_down hello_seven ''hello'' initial_world) = Inl (ClientError ''network'')
   \<and> attempted (new_calls initial_world (snd (generate_response env_model_down hello_seven initial_world))) =
        [(7, error_fallback)]
   \<and> delivered (new_calls initial_world (snd (generate_response env_model_down hello_seven initial_world))) =
        [(7, error_fallback)]
   \<and> fst (generate_response env_model_down hello_seven initial_world) = Inr ()
   \<and> conversations (snd (generate_response env_model_down hello_seven initial_world)) 7 = Some 0"
  using C8_model_failure_keeps_session
          [of hello_seven "''hello''" initial_world env_model_down "ClientError ''network''"]
  by (simp add: hello_seven_def env_model_down_def initial_world_def user_message_of_def
        model_answer_def)

end
